theory Spec2Isabelle
  imports Complex_Main
begin

section \<open>The platform audio element\<close>

text \<open>
  \<^verbatim>\<open>AudioPlayer\<close> wraps one \<^verbatim>\<open>HTMLAudioElement\<close>. The element belongs to the
  browser, not to the repository; only the attributes the source reads or writes are
  kept. \<^verbatim>\<open>new Audio(url)\<close> gives a paused element at position 0 with full volume;
  \<^verbatim>\<open>pause()\<close> sets \<^verbatim>\<open>paused\<close>; \<^verbatim>\<open>load()\<close> resets the element (paused, position 0).
  \<^verbatim>\<open>play()\<close> is asynchronous: its promise is settled later by the platform, see
  \<open>settle\<close> below.
\<close>

record HTMLAudioElement =
  src :: string
  volume :: real
  loop :: bool
  currentTime :: real
  paused :: bool

definition Audio :: "string \<Rightarrow> HTMLAudioElement" where
  "Audio u = \<lparr>src = u, volume = 1, loop = False, currentTime = 0, paused = True\<rparr>"

definition el_pause :: "HTMLAudioElement \<Rightarrow> HTMLAudioElement" where
  "el_pause a = a\<lparr>paused := True\<rparr>"

definition el_load :: "HTMLAudioElement \<Rightarrow> HTMLAudioElement" where
  "el_load a = a\<lparr>currentTime := 0, paused := True\<rparr>"

text \<open>
  A JavaScript error value; the source only ever reads \<^verbatim>\<open>err.name\<close>. The platform
  rejects \<^verbatim>\<open>audio.play()\<close> with a \<^verbatim>\<open>DOMException\<close>, which has a name.
\<close>

datatype js_error = JsError (error_name: string)

section \<open>AudioPlayer\<close>

text \<open>
  The end callback is a closure in the source. The closures the repository itself
  registers are listed by name; \<open>Client c\<close> stands for any other function handed to
  \<^verbatim>\<open>registerOnEndCallback\<close> (the class is exported), its behaviour given by an
  environment.
  \<^item> \<open>EndedTrigger sid\<close>: \<^verbatim>\<open>() => haptic.triggerAction('widget-audio-player-audio-ended-' + source.id)\<close>
    registered by \<^verbatim>\<open>initialize\<close>;
  \<^item> \<open>Advance r j\<close>: the handler \<^verbatim>\<open>playNext\<close> registers in activation \<open>r\<close> of
    \<^verbatim>\<open>playAsPlaylist\<close>, closed over that activation's \<^verbatim>\<open>currentIndex\<close> and over the
    selected \<^verbatim>\<open>player\<close> (the player at position \<open>j\<close>).
\<close>

datatype callback = EndedTrigger string | Advance nat nat | Client nat

record AudioPlayer =
  player_id :: string
  playing :: bool
  audio :: HTMLAudioElement
  onEndCallback :: "callback option"

definition clampVolume :: "real \<Rightarrow> real" where
  "clampVolume v = min 1 (max 0 v)"

text \<open>\<^verbatim>\<open>constructor(url, volume = 1.0)\<close>; the \<^verbatim>\<open>ended\<close> listener it binds is \<open>ended_listener\<close>.\<close>

definition new_AudioPlayer :: "string \<Rightarrow> real \<Rightarrow> AudioPlayer" where
  "new_AudioPlayer u v =
     \<lparr>player_id = [], playing = False, audio = (Audio u)\<lparr>volume := clampVolume v\<rparr>,
      onEndCallback = None\<rparr>"

definition rewind :: "AudioPlayer \<Rightarrow> AudioPlayer" where
  "rewind p = p\<lparr>audio := (audio p)\<lparr>currentTime := 0\<rparr>\<rparr>"

definition stop :: "AudioPlayer \<Rightarrow> AudioPlayer" where
  "stop p = p\<lparr>audio := (el_pause (audio p))\<lparr>currentTime := 0\<rparr>, playing := False\<rparr>"

definition pause :: "AudioPlayer \<Rightarrow> AudioPlayer" where
  "pause p = p\<lparr>audio := el_pause (audio p)\<rparr>"

definition setVolume :: "real \<Rightarrow> AudioPlayer \<Rightarrow> AudioPlayer" where
  "setVolume v p = p\<lparr>audio := (audio p)\<lparr>volume := clampVolume v\<rparr>\<rparr>"

definition registerOnEndCallback :: "callback \<Rightarrow> AudioPlayer \<Rightarrow> AudioPlayer" where
  "registerOnEndCallback cb p = p\<lparr>onEndCallback := Some cb\<rparr>"

definition destroy :: "AudioPlayer \<Rightarrow> AudioPlayer" where
  "destroy p =
     (let p1 = p\<lparr>playing := False, onEndCallback := None\<rparr>;
          p2 = p1\<lparr>audio := (audio p1)\<lparr>volume := 0\<rparr>\<rparr>;
          p3 = p2\<lparr>audio := el_pause (audio p2)\<rparr>
      in p3\<lparr>audio := el_load ((audio p3)\<lparr>src := []\<rparr>)\<rparr>)"

text \<open>The synchronous head of \<^verbatim>\<open>play(loop)\<close>: the two assignments before \<^verbatim>\<open>attemptPlay\<close>.\<close>

definition play_begin :: "bool \<Rightarrow> AudioPlayer \<Rightarrow> AudioPlayer" where
  "play_begin lp p = p\<lparr>audio := (audio p)\<lparr>loop := lp\<rparr>, playing := True\<rparr>"

section \<open>The widget and its event loop\<close>

text \<open>
  The widget's state, as far as the playback core reaches it. JavaScript runs one event
  handler at a time; an \<^verbatim>\<open>await\<close> suspends the running \<^verbatim>\<open>play()\<close> until the
  platform resumes it. So the state also lists
  \<^item> \<open>cursors\<close>: one cell per activation of \<^verbatim>\<open>playAsPlaylist\<close>, holding that
    activation's local \<^verbatim>\<open>currentIndex\<close> (the closures it creates share the cell);
  \<^item> \<open>tasks\<close>: one entry per call of \<^verbatim>\<open>AudioPlayer.play\<close>, with the player it runs
    on and the point where it is suspended;
  \<^item> \<open>trace\<close>: the calls made to the outside (logging, \<^verbatim>\<open>haptic.triggerAction\<close>,
    \<^verbatim>\<open>audio.play()\<close>, \<^verbatim>\<open>setTimeout\<close>), in order.
  Players are addressed by their position in \<^verbatim>\<open>this.players\<close>; the list itself is
  only rebuilt by \<^verbatim>\<open>initialize\<close>, which is outside this model. A cursor cell, a task
  and the player a closure has captured always exist in the source, so the functions
  below are only meant for indices of cells, tasks and players that exist; an event for a
  task or player that does not exist is ignored.
\<close>

datatype AudioSourceType = FileAsset | Url

record AudioSource =
  source_type :: AudioSourceType
  source_id :: string
  fileId :: "string option"
  url :: "string option"
  source_volume :: "real option"

datatype phase = AwaitPlay | AwaitTimer | Resolved

datatype effect =
    AnalyticsDebug string
  | AnalyticsError string string
  | ConsoleWarn string
  | ConsoleError string js_error
  | TriggerAction string
  | AudioPlayCall nat
  | SetTimeout nat nat

record AudioPlayerWidget =
  sources :: "AudioSource list"
  players :: "AudioPlayer list"
  cursors :: "nat list"
  tasks :: "(nat \<times> phase) list"
  trace :: "effect list"

text \<open>An operation that may throw: the state it leaves behind either way.\<close>

datatype result =
    is_Returned: Returned (state_of: AudioPlayerWidget)
  | Thrown (thrown: js_error) (state_of: AudioPlayerWidget)

type_synonym client_env = "nat \<Rightarrow> AudioPlayerWidget \<Rightarrow> result"

definition emit :: "effect \<Rightarrow> AudioPlayerWidget \<Rightarrow> AudioPlayerWidget" where
  "emit e w = w\<lparr>trace := trace w @ [e]\<rparr>"

definition on_player ::
  "nat \<Rightarrow> (AudioPlayer \<Rightarrow> AudioPlayer) \<Rightarrow> AudioPlayerWidget \<Rightarrow> AudioPlayerWidget" where
  "on_player i f w = w\<lparr>players := (players w)[i := f (players w ! i)]\<rparr>"

definition set_phase :: "nat \<Rightarrow> phase \<Rightarrow> AudioPlayerWidget \<Rightarrow> AudioPlayerWidget" where
  "set_phase k ph w = w\<lparr>tasks := (tasks w)[k := (fst (tasks w ! k), ph)]\<rparr>"

definition triggerAction :: "string \<Rightarrow> AudioPlayerWidget \<Rightarrow> AudioPlayerWidget" where
  "triggerAction a w = emit (TriggerAction a) w"

definition ended_action :: "string \<Rightarrow> string" where
  "ended_action sid = ''widget-audio-player-audio-ended-'' @ sid"

definition started_action :: "string \<Rightarrow> string" where
  "started_action sid = ''widget-audio-player-audio-started-'' @ sid"

subsection \<open>\<^verbatim>\<open>AudioPlayer.play\<close> as a suspended task\<close>

text \<open>
  \<^verbatim>\<open>play(loop)\<close> on the player at position \<open>i\<close>: the two assignments, then the first
  \<^verbatim>\<open>attemptPlay()\<close>, which calls \<^verbatim>\<open>audio.play()\<close> and suspends on its promise. The
  new task is the last entry of \<open>tasks\<close>.
\<close>

definition AudioPlayer_play :: "nat \<Rightarrow> bool \<Rightarrow> AudioPlayerWidget \<Rightarrow> AudioPlayerWidget" where
  "AudioPlayer_play i lp w =
     emit (AudioPlayCall i)
       ((on_player i (play_begin lp) w)\<lparr>tasks := tasks w @ [(i, AwaitPlay)]\<rparr>)"

text \<open>
  The platform settles the promise of \<^verbatim>\<open>audio.play()\<close> that task \<open>k\<close> awaits. Fulfilled:
  \<^verbatim>\<open>attemptPlay\<close> returns and with it \<^verbatim>\<open>play\<close> (the element now plays). Rejected with
  \<^verbatim>\<open>NotAllowedError\<close>: warn, start the 250 ms timer and suspend on it. Rejected with
  anything else: log, clear \<^verbatim>\<open>playing\<close>, return. A settlement for a task that awaits
  no promise does nothing.
\<close>

datatype settlement = Fulfilled | Rejected js_error

definition settle :: "nat \<Rightarrow> settlement \<Rightarrow> AudioPlayerWidget \<Rightarrow> AudioPlayerWidget" where
  "settle k s w =
     (if k < length (tasks w) \<and> snd (tasks w ! k) = AwaitPlay then
        (let i = fst (tasks w ! k) in
         case s of
           Fulfilled \<Rightarrow>
             set_phase k Resolved (on_player i (\<lambda>p. p\<lparr>audio := (audio p)\<lparr>paused := False\<rparr>\<rparr>) w)
         | Rejected err \<Rightarrow>
             if error_name err = ''NotAllowedError'' then
               set_phase k AwaitTimer
                 (emit (SetTimeout k 250) (emit (ConsoleWarn ''Playback blocked, retrying...'') w))
             else
               set_phase k Resolved
                 (on_player i (\<lambda>p. p\<lparr>playing := False\<rparr>)
                    (emit (ConsoleError ''Audio playback failed:'' err) w)))
      else w)"

text \<open>
  The 250 ms timer of task \<open>k\<close> fires: \<^verbatim>\<open>if (!this.playing) return\<close>, else the next
  \<^verbatim>\<open>attemptPlay()\<close>.
\<close>

definition timer_fired :: "nat \<Rightarrow> AudioPlayerWidget \<Rightarrow> AudioPlayerWidget" where
  "timer_fired k w =
     (if k < length (tasks w) \<and> snd (tasks w ! k) = AwaitTimer then
        (let i = fst (tasks w ! k) in
         if \<not> playing (players w ! i) then set_phase k Resolved w
         else emit (AudioPlayCall i) (set_phase k AwaitPlay w))
      else w)"

subsection \<open>The playlist\<close>

text \<open>
  \<^verbatim>\<open>playNext\<close> of activation \<open>r\<close>. \<^verbatim>\<open>this.players[currentIndex]\<close> is \<^verbatim>\<open>undefined\<close>
  when the index is not below the length, and the method call on it throws a TypeError.
\<close>

definition playNext :: "nat \<Rightarrow> AudioPlayerWidget \<Rightarrow> result" where
  "playNext r w =
     (let w1 = (if cursors w ! r \<ge> length (players w)
                then w\<lparr>cursors := (cursors w)[r := 0]\<rparr> else w);
          c = cursors w1 ! r
      in if c < length (players w1) then
           Returned
             (AudioPlayer_play c False
                (triggerAction (started_action (player_id (players w1 ! c)))
                   (on_player c (registerOnEndCallback (Advance r c)) w1)))
         else Thrown (JsError ''TypeError'') w1)"

definition playAsPlaylist :: "AudioPlayerWidget \<Rightarrow> result" where
  "playAsPlaylist w =
     (let w1 = emit (AnalyticsDebug ''playAsPlaylist'') w in
      if sources w1 = [] then Returned w1
      else playNext (length (cursors w1)) (w1\<lparr>cursors := cursors w1 @ [0]\<rparr>))"

text \<open>Running an end callback. The handler of \<^verbatim>\<open>playNext\<close> reads \<^verbatim>\<open>player.id\<close> when it runs.\<close>

fun run_callback :: "client_env \<Rightarrow> callback \<Rightarrow> AudioPlayerWidget \<Rightarrow> result" where
  "run_callback env (EndedTrigger sid) w = Returned (triggerAction (ended_action sid) w)"
| "run_callback env (Advance r j) w =
     playNext r
       ((triggerAction (ended_action (player_id (players w ! j))) w)
          \<lparr>cursors := (cursors w)[r := cursors w ! r + 1]\<rparr>)"
| "run_callback env (Client c) w = env c w"

text \<open>
  The \<^verbatim>\<open>ended\<close> listener the constructor binds, for the player at position \<open>i\<close>. The
  platform dispatches \<^verbatim>\<open>ended\<close> when the resource reaches its end.
\<close>

definition ended_listener :: "client_env \<Rightarrow> nat \<Rightarrow> AudioPlayerWidget \<Rightarrow> AudioPlayerWidget" where
  "ended_listener env i w =
     (if i < length (players w) then
        (if \<not> playing (players w ! i) then w
         else
           (let w1 = on_player i (\<lambda>p. p\<lparr>playing := False\<rparr>) w in
            case onEndCallback (players w1 ! i) of
              None \<Rightarrow> w1
            | Some cb \<Rightarrow>
                (case run_callback env cb w1 of
                   Returned w2 \<Rightarrow> w2
                 | Thrown err w2 \<Rightarrow> emit (ConsoleError ''Audio onEnd callback failed:'' err) w2)))
      else w)"

subsection \<open>The widget's entry points\<close>

text \<open>\<^verbatim>\<open>this.players.find((p) => p.id === id)\<close>: the position of the first match.\<close>

fun find_player :: "string \<Rightarrow> AudioPlayer list \<Rightarrow> nat option" where
  "find_player ident [] = None"
| "find_player ident (p # ps) =
     (if player_id p = ident then Some 0 else map_option Suc (find_player ident ps))"

definition widget_play :: "string \<Rightarrow> bool \<Rightarrow> AudioPlayerWidget \<Rightarrow> AudioPlayerWidget" where
  "widget_play ident lp w =
     (let w1 = emit (AnalyticsDebug ''play'') w in
      case find_player ident (players w1) of
        None \<Rightarrow> emit (AnalyticsError ''No audio player found with ID'' ident) w1
      | Some i \<Rightarrow>
          AudioPlayer_play i lp
            (if playing (players w1 ! i) then on_player i rewind w1 else w1))"

definition widget_stop :: "string \<Rightarrow> AudioPlayerWidget \<Rightarrow> AudioPlayerWidget" where
  "widget_stop ident w =
     (let w1 = emit (AnalyticsDebug ''stop'') w in
      case find_player ident (players w1) of
        None \<Rightarrow> emit (AnalyticsError ''No audio player found with ID'' ident) w1
      | Some i \<Rightarrow> on_player i stop w1)"

section \<open>Driving a playlist\<close>

text \<open>
  \<open>natural_ends env r k\<close> delivers \<open>k\<close> \<^verbatim>\<open>ended\<close> events, each to the player at the
  cursor of playlist activation \<open>r\<close> at that moment.
\<close>

fun natural_ends :: "client_env \<Rightarrow> nat \<Rightarrow> nat \<Rightarrow> AudioPlayerWidget \<Rightarrow> AudioPlayerWidget" where
  "natural_ends env r 0 w = w"
| "natural_ends env r (Suc k) w =
     (let w' = natural_ends env r k w in ended_listener env (cursors w' ! r) w')"

text \<open>
  The order the specification describes for a playlist over the sources \<open>ids\<close>, after
  \<open>k\<close> natural ends: for each unit in cyclic order, its \<^verbatim>\<open>started\<close> notification, then
  the start of its playback; between two units, the \<^verbatim>\<open>ended\<close> notification of the first.
\<close>

fun cyclic_order_trace :: "string list \<Rightarrow> nat \<Rightarrow> effect list" where
  "cyclic_order_trace ids 0 = [TriggerAction (started_action (ids ! 0)), AudioPlayCall 0]"
| "cyclic_order_trace ids (Suc k) =
     cyclic_order_trace ids k @
       [TriggerAction (ended_action (ids ! (k mod length ids))),
        TriggerAction (started_action (ids ! (Suc k mod length ids))),
        AudioPlayCall (Suc k mod length ids)]"

text \<open>
  The unit at position \<open>c\<close> is the one activation \<open>r\<close> has selected: the cursor points
  at it, it carries the activation's handler, and \<^verbatim>\<open>play()\<close> has been called on it
  without looping.
\<close>

definition selected :: "nat \<Rightarrow> nat \<Rightarrow> AudioPlayerWidget \<Rightarrow> bool" where
  "selected r c w =
     (c < length (players w) \<and> r < length (cursors w) \<and> cursors w ! r = c
      \<and> playing (players w ! c) \<and> \<not> loop (audio (players w ! c))
      \<and> onEndCallback (players w ! c) = Some (Advance r c))"

section \<open>Interleavings\<close>

text \<open>
  What can happen to the widget between two moments, as far as it does not run an end
  callback: a method is called on a player, the platform settles the promise a task
  awaits, or the timer of a task fires. \<open>quiet i es\<close> says that none of the events
  \<open>es\<close> is a call of \<^verbatim>\<open>play()\<close> on the player at position \<open>i\<close>, and \<open>attempts_on i t\<close>
  counts the calls of \<^verbatim>\<open>audio.play()\<close> on that player in a trace.
\<close>

datatype unit_event =
    CallStop nat
  | CallPause nat
  | CallRewind nat
  | CallSetVolume nat real
  | CallRegister nat callback
  | CallDestroy nat
  | CallPlay nat bool
  | PromiseSettled nat settlement
  | TimerElapsed nat

fun exec :: "unit_event \<Rightarrow> AudioPlayerWidget \<Rightarrow> AudioPlayerWidget" where
  "exec (CallStop j) w = on_player j stop w"
| "exec (CallPause j) w = on_player j pause w"
| "exec (CallRewind j) w = on_player j rewind w"
| "exec (CallSetVolume j v) w = on_player j (setVolume v) w"
| "exec (CallRegister j cb) w = on_player j (registerOnEndCallback cb) w"
| "exec (CallDestroy j) w = on_player j destroy w"
| "exec (CallPlay j lp) w = AudioPlayer_play j lp w"
| "exec (PromiseSettled k s) w = settle k s w"
| "exec (TimerElapsed k) w = timer_fired k w"

fun run :: "unit_event list \<Rightarrow> AudioPlayerWidget \<Rightarrow> AudioPlayerWidget" where
  "run [] w = w"
| "run (e # es) w = run es (exec e w)"




section \<open>Concrete widgets\<close>

text \<open>
  Three URL sources and their players, as \<^verbatim>\<open>initialize\<close> builds them:
  \<^verbatim>\<open>new AudioPlayer(source.url, source.volume ?? 1)\<close>, then \<^verbatim>\<open>player.id = source.id\<close>,
  and at the end of the loop body the registration of the callback that triggers the
  source's \<^verbatim>\<open>ended\<close> action.
\<close>

definition url_source :: "string \<Rightarrow> string \<Rightarrow> AudioSource" where
  "url_source sid u =
     \<lparr>source_type = Url, source_id = sid, fileId = None, url = Some u, source_volume = None\<rparr>"

definition url_player :: "string \<Rightarrow> string \<Rightarrow> AudioPlayer" where
  "url_player sid u =
     registerOnEndCallback (EndedTrigger sid) ((new_AudioPlayer u 1)\<lparr>player_id := sid\<rparr>)"

definition abc_widget :: AudioPlayerWidget where
  "abc_widget =
     \<lparr>sources = [url_source ''A'' ''a.mp3'', url_source ''B'' ''b.mp3'', url_source ''C'' ''c.mp3''],
      players = [url_player ''A'' ''a.mp3'', url_player ''B'' ''b.mp3'', url_player ''C'' ''c.mp3''],
      cursors = [], tasks = [], trace = []\<rparr>"

text \<open>One source, one player.\<close>

definition solo_widget :: AudioPlayerWidget where
  "solo_widget =
     \<lparr>sources = [url_source ''A'' ''a.mp3''], players = [url_player ''A'' ''a.mp3''],
      cursors = [], tasks = [], trace = []\<rparr>"

text \<open>
  A file-asset source with no file chosen yet (what the settings dialog adds by
  default): \<^verbatim>\<open>initialize\<close> reports it as invalid and creates no player for it.
\<close>

definition unresolved_widget :: AudioPlayerWidget where
  "unresolved_widget =
     \<lparr>sources = [\<lparr>source_type = FileAsset, source_id = ''A'', fileId = None, url = None,
                  source_volume = Some 1\<rparr>],
      players = [], cursors = [], tasks = [], trace = []\<rparr>"

text \<open>Client callbacks: one that returns, one that throws; both leave a mark in the trace.\<close>

definition returning_env :: client_env where
  "returning_env c w = Returned (triggerAction ''client-callback'' w)"

definition throwing_env :: client_env where
  "throwing_env c w = Thrown (JsError ''Error'') (triggerAction ''client-callback'' w)"

text \<open>
  A client callback is registered on the only player and \<^verbatim>\<open>play()\<close> is called: the
  unit is armed and its playing flag is set.
\<close>

definition armed_widget :: AudioPlayerWidget where
  "armed_widget =
     AudioPlayer_play 0 False (on_player 0 (registerOnEndCallback (Client 0)) solo_widget)"

text \<open>
  From there, in the same turn of the event loop, \<^verbatim>\<open>stop()\<close> and \<^verbatim>\<open>play()\<close> again.
  The platform rejects the first promise (\<^verbatim>\<open>AbortError\<close>: \<^verbatim>\<open>pause()\<close> interrupted it)
  and fulfils the second: the audio plays.
\<close>

definition interrupted_widget :: AudioPlayerWidget where
  "interrupted_widget =
     settle 1 Fulfilled
       (settle 0 (Rejected (JsError ''AbortError''))
          (AudioPlayer_play 0 False (on_player 0 stop armed_widget)))"

text \<open>
  In one turn of the event loop the widget is asked to play source A, to stop it, and to
  play all sources as a playlist. The platform then rejects the promise of the first
  \<^verbatim>\<open>audio.play()\<close> (\<^verbatim>\<open>AbortError\<close>: the \<^verbatim>\<open>pause()\<close> of \<^verbatim>\<open>stop\<close> interrupted it)
  and fulfils the promise of the second, the one the playlist made: unit A plays.
\<close>

definition stalled_widget :: AudioPlayerWidget where
  "stalled_widget =
     settle 1 Fulfilled
       (settle 0 (Rejected (JsError ''AbortError''))
          (state_of (playAsPlaylist (widget_stop ''A'' (widget_play ''A'' False abc_widget)))))"



text \<open>
  A playlist over three units whose first unit has ended (the cursor is at the second
  unit), and the same widget after \<^verbatim>\<open>playAsPlaylist\<close> has been called once more.
\<close>

definition mid_playlist_widget :: AudioPlayerWidget where
  "mid_playlist_widget = ended_listener returning_env 0 (state_of (playAsPlaylist abc_widget))"

definition restarted_widget :: AudioPlayerWidget where
  "restarted_widget = state_of (playAsPlaylist mid_playlist_widget)"

section \<open>Auxiliary facts\<close>

lemma find_player_None: "find_player ident ps = None \<longleftrightarrow> ident \<notin> player_id ` set ps"
  by (induction ps) auto

lemma play_task:
  assumes "i < length (players w)"
  shows "tasks (AudioPlayer_play i lp w) = tasks w @ [(i, AwaitPlay)]"
    and "players (AudioPlayer_play i lp w) = (players w)[i := play_begin lp (players w ! i)]"
    and "playing (players (AudioPlayer_play i lp w) ! i)"
    and "trace (AudioPlayer_play i lp w) = trace w @ [AudioPlayCall i]"
    and "cursors (AudioPlayer_play i lp w) = cursors w"
  using assms by (simp_all add: AudioPlayer_play_def play_begin_def on_player_def emit_def)

lemma settle_blocked:
  assumes "k < length (tasks w)" and "tasks w ! k = (i, AwaitPlay)"
  shows "tasks (settle k (Rejected (JsError ''NotAllowedError'')) w) = (tasks w)[k := (i, AwaitTimer)]"
    and "players (settle k (Rejected (JsError ''NotAllowedError'')) w) = players w"
    and "trace (settle k (Rejected (JsError ''NotAllowedError'')) w) =
           trace w @ [ConsoleWarn ''Playback blocked, retrying...'', SetTimeout k 250]"
  using assms by (simp_all add: settle_def set_phase_def emit_def)

lemma settle_fulfilled:
  assumes "k < length (tasks w)" and "tasks w ! k = (i, AwaitPlay)" and "i < length (players w)"
  shows "tasks (settle k Fulfilled w) = (tasks w)[k := (i, Resolved)]"
    and "playing (players (settle k Fulfilled w) ! i) = playing (players w ! i)"
    and "length (players (settle k Fulfilled w)) = length (players w)"
    and "trace (settle k Fulfilled w) = trace w"
  using assms by (simp_all add: settle_def set_phase_def on_player_def)

lemma timer_retry:
  assumes "k < length (tasks w)" and "tasks w ! k = (i, AwaitTimer)" and "playing (players w ! i)"
  shows "tasks (timer_fired k w) = (tasks w)[k := (i, AwaitPlay)]"
    and "players (timer_fired k w) = players w"
    and "trace (timer_fired k w) = trace w @ [AudioPlayCall i]"
  using assms by (simp_all add: timer_fired_def set_phase_def emit_def)

lemma timer_abort:
  assumes "k < length (tasks w)" and "tasks w ! k = (i, AwaitTimer)" and "\<not> playing (players w ! i)"
  shows "tasks (timer_fired k w) = (tasks w)[k := (i, Resolved)]"
    and "players (timer_fired k w) = players w"
    and "trace (timer_fired k w) = trace w"
  using assms by (simp_all add: timer_fired_def set_phase_def)

lemma resolved_task_inert:
  assumes "k < length (tasks w)" and "snd (tasks w ! k) = Resolved"
  shows "timer_fired k w = w" and "settle k s w = w"
  using assms by (simp_all add: timer_fired_def settle_def)

lemma playNext_selects:
  assumes "r < length (cursors w)" and "players w \<noteq> []"
  shows "\<exists>w'. playNext r w = Returned w'
     \<and> selected r (if cursors w ! r \<ge> length (players w) then 0 else cursors w ! r) w'
     \<and> map player_id (players w') = map player_id (players w)
     \<and> length (cursors w') = length (cursors w)
     \<and> (\<forall>q. q \<noteq> r \<longrightarrow> cursors w' ! q = cursors w ! q)
     \<and> sources w' = sources w
     \<and> trace w' = trace w @
         [TriggerAction (started_action (player_id (players w !
             (if cursors w ! r \<ge> length (players w) then 0 else cursors w ! r)))),
          AudioPlayCall (if cursors w ! r \<ge> length (players w) then 0 else cursors w ! r)]"
  using assms
  by (auto simp add: playNext_def selected_def AudioPlayer_play_def triggerAction_def emit_def on_player_def
      play_begin_def registerOnEndCallback_def Let_def map_update list_update_same_conv)


lemma ended_advances:
  assumes sel: "selected r c w"
  defines "c' \<equiv> (if Suc c = length (players w) then 0 else Suc c)"
  shows "selected r c' (ended_listener env c w)
     \<and> map player_id (players (ended_listener env c w)) = map player_id (players w)
     \<and> length (cursors (ended_listener env c w)) = length (cursors w)
     \<and> (\<forall>q. q \<noteq> r \<longrightarrow> cursors (ended_listener env c w) ! q = cursors w ! q)
     \<and> sources (ended_listener env c w) = sources w
     \<and> trace (ended_listener env c w) = trace w @
         [TriggerAction (ended_action (player_id (players w ! c))),
          TriggerAction (started_action (player_id (players w ! c'))),
          AudioPlayCall c']"
proof -
  define w1 where "w1 = on_player c (\<lambda>p. p\<lparr>playing := False\<rparr>) w"
  define w2 where "w2 = (triggerAction (ended_action (player_id (players w1 ! c))) w1)
          \<lparr>cursors := (cursors w1)[r := cursors w1 ! r + 1]\<rparr>"
  from sel have c: "c < length (players w)" and r: "r < length (cursors w)"
    and cur: "cursors w ! r = c" and pl: "playing (players w ! c)"
    and cb: "onEndCallback (players w ! c) = Some (Advance r c)"
    by (simp_all add: selected_def)
  have cb1: "onEndCallback (players w1 ! c) = Some (Advance r c)"
    using c cb by (simp add: w1_def on_player_def)
  have run: "ended_listener env c w =
      (case playNext r w2 of Returned w3 \<Rightarrow> w3
       | Thrown err w3 \<Rightarrow> emit (ConsoleError ''Audio onEnd callback failed:'' err) w3)"
    using c pl cb1 by (simp add: ended_listener_def Let_def w1_def [symmetric] w2_def)
  have w2_players: "map player_id (players w2) = map player_id (players w)"
    "length (players w2) = length (players w)"
    using c by (simp_all add: w2_def w1_def on_player_def triggerAction_def emit_def map_update
        list_update_same_conv)
  have w2_cursors: "length (cursors w2) = length (cursors w)" "cursors w2 ! r = Suc c"
    "\<And>q. q \<noteq> r \<Longrightarrow> cursors w2 ! q = cursors w ! q"
    using r cur by (simp_all add: w2_def w1_def on_player_def triggerAction_def emit_def)
  have w2_rest: "sources w2 = sources w"
    "trace w2 = trace w @ [TriggerAction (ended_action (player_id (players w ! c)))]"
    using c by (simp_all add: w2_def w1_def on_player_def triggerAction_def emit_def)
  have ne: "players w2 \<noteq> []" using c w2_players(2) by auto
  have r2: "r < length (cursors w2)" using r w2_cursors(1) by simp
  have idx: "(if cursors w2 ! r \<ge> length (players w2) then 0 else cursors w2 ! r) = c'"
    using c by (auto simp add: w2_cursors(2) w2_players(2) c'_def)
  have ids: "player_id (players w2 ! c') = player_id (players w ! c')"
  proof -
    have "c' < length (players w)" using c by (auto simp add: c'_def)
    then have "map player_id (players w2) ! c' = map player_id (players w) ! c'"
      using w2_players(1) by simp
    then show ?thesis using \<open>c' < length (players w)\<close> w2_players(2) by simp
  qed
  from playNext_selects [OF r2 ne] obtain w3 where
    w3: "playNext r w2 = Returned w3" "selected r c' w3"
      "map player_id (players w3) = map player_id (players w2)"
      "length (cursors w3) = length (cursors w2)"
      "\<forall>q. q \<noteq> r \<longrightarrow> cursors w3 ! q = cursors w2 ! q"
      "sources w3 = sources w2"
      "trace w3 = trace w2 @ [TriggerAction (started_action (player_id (players w2 ! c'))),
          AudioPlayCall c']"
    unfolding idx by blast
  have "ended_listener env c w = w3" using run w3(1) by simp
  then show ?thesis
    using w3 w2_players w2_cursors w2_rest ids by simp
qed


lemma playAsPlaylist_starts:
  assumes "players w \<noteq> []" and "sources w \<noteq> []"
  shows "\<exists>w0. playAsPlaylist w = Returned w0
     \<and> selected (length (cursors w)) 0 w0
     \<and> map player_id (players w0) = map player_id (players w)
     \<and> length (cursors w0) = Suc (length (cursors w))
     \<and> (\<forall>q. q \<noteq> length (cursors w) \<longrightarrow> cursors w0 ! q = (cursors w @ [0]) ! q)
     \<and> sources w0 = sources w
     \<and> trace w0 = trace w @
          [AnalyticsDebug ''playAsPlaylist'',
           TriggerAction (started_action (player_id (players w ! 0))), AudioPlayCall 0]"
proof -
  define w1 where "w1 = (emit (AnalyticsDebug ''playAsPlaylist'') w)\<lparr>cursors := cursors w @ [0]\<rparr>"
  have start: "playAsPlaylist w = playNext (length (cursors w)) w1"
    using assms(2) by (simp add: playAsPlaylist_def Let_def w1_def emit_def)
  have w1: "players w1 = players w" "cursors w1 = cursors w @ [0]" "sources w1 = sources w"
    "trace w1 = trace w @ [AnalyticsDebug ''playAsPlaylist'']"
    by (simp_all add: w1_def emit_def)
  have r: "length (cursors w) < length (cursors w1)" and ne: "players w1 \<noteq> []"
    using assms(1) by (simp_all add: w1)
  have idx: "(if cursors w1 ! length (cursors w) \<ge> length (players w1) then 0
              else cursors w1 ! length (cursors w)) = 0"
    by (simp add: w1)
  from playNext_selects [OF r ne] obtain w0 where
    "playNext (length (cursors w)) w1 = Returned w0" "selected (length (cursors w)) 0 w0"
      "map player_id (players w0) = map player_id (players w1)"
      "length (cursors w0) = length (cursors w1)"
      "\<forall>q. q \<noteq> length (cursors w) \<longrightarrow> cursors w0 ! q = cursors w1 ! q"
      "sources w0 = sources w1"
      "trace w0 = trace w1 @ [TriggerAction (started_action (player_id (players w1 ! 0))),
          AudioPlayCall 0]"
    unfolding idx by blast
  then show ?thesis
    using start by (simp add: w1)
qed

lemma natural_ends_cycle:
  assumes "selected r 0 w0" and "trace w0 = t @ cyclic_order_trace (map player_id (players w0)) 0"
  shows "selected r (k mod length (players w0)) (natural_ends env r k w0)
     \<and> map player_id (players (natural_ends env r k w0)) = map player_id (players w0)
     \<and> trace (natural_ends env r k w0) = t @ cyclic_order_trace (map player_id (players w0)) k"
proof (induction k)
  case 0
  from assms show ?case by simp
next
  case (Suc k)
  define wk where "wk = natural_ends env r k w0"
  define n where "n = length (players w0)"
  from Suc have sel: "selected r (k mod n) wk"
    and ids: "map player_id (players wk) = map player_id (players w0)"
    and tr: "trace wk = t @ cyclic_order_trace (map player_id (players w0)) k"
    by (simp_all add: wk_def n_def)
  from ids have len: "length (players wk) = n"
    unfolding n_def by (metis length_map)
  from sel have cur: "cursors wk ! r = k mod n" and lt: "k mod n < n"
    by (simp_all add: selected_def len)
  have next_idx: "(if Suc (k mod n) = length (players wk) then 0 else Suc (k mod n)) = Suc k mod n"
    using lt by (simp add: len mod_Suc)
  have id_at: "\<And>j. j < n \<Longrightarrow> player_id (players wk ! j) = map player_id (players w0) ! j"
    using ids len by (metis nth_map)
  have lt': "Suc k mod n < n" using lt by simp
  have step: "natural_ends env r (Suc k) w0 = ended_listener env (k mod n) wk"
    by (simp add: wk_def Let_def cur [unfolded wk_def])
  from ended_advances [OF sel, of env] show ?case
    unfolding next_idx step [symmetric] 
    by (simp add: ids tr id_at [OF lt] id_at [OF lt'] n_def [symmetric])
qed

lemma ended_single_advance:
  assumes i: "i < length (players w)" and pl: "playing (players w ! i)"
    and cb: "onEndCallback (players w ! i) = Some (Advance r j)"
    and r: "r < length (cursors w)"
  defines "c' \<equiv> (if Suc (cursors w ! r) \<ge> length (players w) then 0 else Suc (cursors w ! r))"
  shows "cursors (ended_listener env i w) = (cursors w)[r := c']"
    and "trace (ended_listener env i w) = trace w @
         [TriggerAction (ended_action (player_id (players w ! j))),
          TriggerAction (started_action (player_id (players w ! c'))),
          AudioPlayCall c']"
    and "onEndCallback (players (ended_listener env i w) ! c') = Some (Advance r c')"
proof -
  define w1 where "w1 = on_player i (\<lambda>p. p\<lparr>playing := False\<rparr>) w"
  define w2 where "w2 = (triggerAction (ended_action (player_id (players w1 ! j))) w1)
          \<lparr>cursors := (cursors w1)[r := cursors w1 ! r + 1]\<rparr>"
  have cb1: "onEndCallback (players w1 ! i) = Some (Advance r j)"
    using i cb by (simp add: w1_def on_player_def)
  have run: "ended_listener env i w =
      (case playNext r w2 of Returned w3 \<Rightarrow> w3
       | Thrown err w3 \<Rightarrow> emit (ConsoleError ''Audio onEnd callback failed:'' err) w3)"
    using i pl cb1 by (simp add: ended_listener_def Let_def w1_def [symmetric] w2_def)
  have idj: "player_id (players w1 ! j) = player_id (players w ! j)"
    using i by (cases "j = i") (simp_all add: w1_def on_player_def)
  have w2_players: "map player_id (players w2) = map player_id (players w)"
    "length (players w2) = length (players w)"
    using i by (simp_all add: w2_def w1_def on_player_def triggerAction_def emit_def map_update
        list_update_same_conv)
  have w2_cursors: "cursors w2 = (cursors w)[r := Suc (cursors w ! r)]"
    by (simp add: w2_def w1_def on_player_def triggerAction_def emit_def)
  have w2_trace: "trace w2 = trace w @ [TriggerAction (ended_action (player_id (players w ! j)))]"
    by (simp add: w2_def idj) (simp add: w1_def on_player_def triggerAction_def emit_def)
  have ne: "players w2 \<noteq> []" using i w2_players(2) by auto
  have r2: "r < length (cursors w2)" using r by (simp add: w2_cursors)
  have idx: "(if cursors w2 ! r \<ge> length (players w2) then 0 else cursors w2 ! r) = c'"
    using r by (simp add: w2_cursors w2_players(2) c'_def)
  have c'_lt: "c' < length (players w)" using i by (auto simp add: c'_def)
  have ids: "player_id (players w2 ! c') = player_id (players w ! c')"
  proof -
    have "map player_id (players w2) ! c' = map player_id (players w) ! c'"
      using w2_players(1) by simp
    then show ?thesis using c'_lt w2_players(2) by simp
  qed
  from playNext_selects [OF r2 ne] obtain w3 where
    w3: "playNext r w2 = Returned w3" "selected r c' w3"
      "length (cursors w3) = length (cursors w2)"
      "\<forall>q. q \<noteq> r \<longrightarrow> cursors w3 ! q = cursors w2 ! q"
      "trace w3 = trace w2 @ [TriggerAction (started_action (player_id (players w2 ! c'))),
          AudioPlayCall c']"
    unfolding idx by blast
  have res: "ended_listener env i w = w3" using run w3(1) by simp
  have "cursors w3 = (cursors w)[r := c']"
  proof (rule nth_equalityI)
    show "length (cursors w3) = length ((cursors w)[r := c'])"
      using w3(3) by (simp add: w2_cursors)
  next
    fix q assume "q < length (cursors w3)"
    then show "cursors w3 ! q = (cursors w)[r := c'] ! q"
      using w3(2,4) r by (cases "q = r") (simp_all add: selected_def w2_cursors)
  qed
  then show "cursors (ended_listener env i w) = (cursors w)[r := c']"
    by (simp add: res)
  show "trace (ended_listener env i w) = trace w @
         [TriggerAction (ended_action (player_id (players w ! j))),
          TriggerAction (started_action (player_id (players w ! c'))),
          AudioPlayCall c']"
    by (simp add: res w3(5) w2_trace ids)
  show "onEndCallback (players (ended_listener env i w) ! c') = Some (Advance r c')"
    using w3(2) by (simp add: res selected_def)
qed

lemma ended_without_handler:
  assumes "i < length (players w)"
    and "\<not> playing (players w ! i) \<or> onEndCallback (players w ! i) = None"
  shows "cursors (ended_listener env i w) = cursors w" and "trace (ended_listener env i w) = trace w"
  using assms by (auto simp add: ended_listener_def on_player_def Let_def)

lemma playAsPlaylist_no_sources:
  "sources w = [] \<Longrightarrow> playAsPlaylist w = Returned (emit (AnalyticsDebug ''playAsPlaylist'') w)"
  by (simp add: playAsPlaylist_def emit_def Let_def)

lemma destroy_idempotent: "destroy (destroy p) = destroy p"
  by (simp add: destroy_def el_pause_def el_load_def Let_def)

lemma destroyed_terminal:
  "\<not> playing (destroy p)" "onEndCallback (destroy p) = None"
  "volume (audio (destroy p)) = 0" "src (audio (destroy p)) = []"
  "paused (audio (destroy p))"
  by (simp_all add: destroy_def el_pause_def el_load_def Let_def)

lemma destroyed_fixed:
  "stop (destroy p) = destroy p" "pause (destroy p) = destroy p"
  "rewind (destroy p) = destroy p"
  by (simp_all add: destroy_def stop_def pause_def rewind_def el_pause_def el_load_def Let_def)

lemma ended_ignored:
  "\<not> playing (players w ! i) \<Longrightarrow> ended_listener env i w = w"
  by (simp add: ended_listener_def)








lemma undisturbed_end_runs_callback:
  assumes "i < length (players w)" and "onEndCallback (players w ! i) = Some cb"
  shows "let w1 = settle (length (tasks w)) Fulfilled (AudioPlayer_play i lp w);
             w2 = on_player i (\<lambda>p. p\<lparr>playing := False\<rparr>) w1
         in playing (players w1 ! i) \<and> \<not> playing (players w2 ! i)
          \<and> ended_listener env i w1 =
              (case run_callback env cb w2 of
                 Returned w3 \<Rightarrow> w3
               | Thrown err w3 \<Rightarrow> emit (ConsoleError ''Audio onEnd callback failed:'' err) w3)"
  using assms
  by (simp add: Let_def ended_listener_def settle_def set_phase_def on_player_def
      AudioPlayer_play_def play_begin_def emit_def nth_append)

section \<open>The playlist cycles\<close>

text \<open>
  The playlist while nothing but natural ends happens. Started over \<open>n > 0\<close> units (and
  a non-empty source list, so that \<^verbatim>\<open>playAsPlaylist\<close> passes its guard) it returns
  normally, and after \<open>k\<close> \<^verbatim>\<open>ended\<close> events, each delivered to the unit at the
  cursor, the cursor is \<open>k mod n\<close>; one more such event moves it to the next position,
  back to \<open>0\<close> after the last unit. The unit at the cursor has been started without
  looping and carries the handler of this playlist, and the calls made to the outside are
  those of the cyclic order: for each unit its \<^verbatim>\<open>started\<close> notification, then the start
  of its playback.
\<close>

lemma undisturbed_playlist_cycles:
  assumes "players w \<noteq> []" and "sources w \<noteq> []"
  shows "is_Returned (playAsPlaylist w)
     \<and> (\<forall>k. let n = length (players w); r = length (cursors w);
                wk = natural_ends env r k (state_of (playAsPlaylist w))
            in cursors wk ! r = k mod n \<and> cursors wk ! r < n \<and> length (players wk) = n
             \<and> cursors (ended_listener env (cursors wk ! r) wk) ! r
                 = (if cursors wk ! r + 1 = n then 0 else cursors wk ! r + 1)
             \<and> selected r (k mod n) wk
             \<and> trace wk = trace w @ AnalyticsDebug ''playAsPlaylist'' #
                  cyclic_order_trace (map player_id (players w)) k)"
proof -
  define r where "r = length (cursors w)"
  define n where "n = length (players w)"
  from playAsPlaylist_starts [OF assms] obtain w0 where
    w0: "playAsPlaylist w = Returned w0" "selected r 0 w0"
      "map player_id (players w0) = map player_id (players w)"
      "trace w0 = trace w @
          [AnalyticsDebug ''playAsPlaylist'',
           TriggerAction (started_action (player_id (players w ! 0))), AudioPlayCall 0]"
    unfolding r_def by blast
  have len0: "length (players w0) = n"
    unfolding n_def using w0(3) by (metis length_map)
  have tr0: "trace w0 = (trace w @ [AnalyticsDebug ''playAsPlaylist'']) @
      cyclic_order_trace (map player_id (players w0)) 0"
    using w0(3,4) assms(1) by (simp add: nth_map)
  have main: "cursors (natural_ends env r k w0) ! r = k mod n
      \<and> cursors (natural_ends env r k w0) ! r < n
      \<and> length (players (natural_ends env r k w0)) = n
      \<and> cursors (ended_listener env (cursors (natural_ends env r k w0) ! r)
            (natural_ends env r k w0)) ! r
          = (if cursors (natural_ends env r k w0) ! r + 1 = n then 0
             else cursors (natural_ends env r k w0) ! r + 1)
      \<and> selected r (k mod n) (natural_ends env r k w0)
      \<and> trace (natural_ends env r k w0) = trace w @ AnalyticsDebug ''playAsPlaylist'' #
            cyclic_order_trace (map player_id (players w)) k" for k
  proof -
    from natural_ends_cycle [OF w0(2) tr0, of k env]
    have sel: "selected r (k mod n) (natural_ends env r k w0)"
      and ids: "map player_id (players (natural_ends env r k w0)) = map player_id (players w0)"
      and tr: "trace (natural_ends env r k w0) = (trace w @ [AnalyticsDebug ''playAsPlaylist'']) @
            cyclic_order_trace (map player_id (players w0)) k"
      by (simp_all add: len0)
    from ids have len: "length (players (natural_ends env r k w0)) = n"
      using len0 by (metis length_map)
    from sel have cur: "cursors (natural_ends env r k w0) ! r = k mod n" and lt: "k mod n < n"
      by (simp_all add: selected_def len)
    from ended_advances [OF sel, of env]
    have "selected r (if Suc (k mod n) = n then 0 else Suc (k mod n))
            (ended_listener env (k mod n) (natural_ends env r k w0))"
      by (simp add: len)
    then have nxt: "cursors (ended_listener env (k mod n) (natural_ends env r k w0)) ! r
        = (if Suc (k mod n) = n then 0 else Suc (k mod n))"
      by (simp add: selected_def)
    show ?thesis
      using sel len cur lt nxt tr w0(3) by simp
  qed
  have ret: "is_Returned (playAsPlaylist w)" and st: "state_of (playAsPlaylist w) = w0"
    using w0(1) by simp_all
  show ?thesis
    unfolding Let_def st r_def [symmetric] n_def [symmetric]
    using ret main by blast
qed

lemma undisturbed_playlist_cycles_example:
  "players abc_widget \<noteq> [] \<and> sources abc_widget \<noteq> []
   \<and> is_Returned (playAsPlaylist abc_widget)
   \<and> cursors (natural_ends returning_env 0 4 (state_of (playAsPlaylist abc_widget))) ! 0 = 1
   \<and> trace (natural_ends returning_env 0 4 (state_of (playAsPlaylist abc_widget))) =
       [AnalyticsDebug ''playAsPlaylist'',
        TriggerAction ''widget-audio-player-audio-started-A'', AudioPlayCall 0,
        TriggerAction ''widget-audio-player-audio-ended-A'',
        TriggerAction ''widget-audio-player-audio-started-B'', AudioPlayCall 1,
        TriggerAction ''widget-audio-player-audio-ended-B'',
        TriggerAction ''widget-audio-player-audio-started-C'', AudioPlayCall 2,
        TriggerAction ''widget-audio-player-audio-ended-C'',
        TriggerAction ''widget-audio-player-audio-started-A'', AudioPlayCall 0,
        TriggerAction ''widget-audio-player-audio-ended-A'',
        TriggerAction ''widget-audio-player-audio-started-B'', AudioPlayCall 1]"
proof -
  have ne: "players abc_widget \<noteq> []" "sources abc_widget \<noteq> []"
    by (simp_all add: abc_widget_def)
  have len: "length (players abc_widget) = 3" "length (cursors abc_widget) = 0"
    "trace abc_widget = []"
    "map player_id (players abc_widget) = [''A'', ''B'', ''C'']"
    by (simp_all add: abc_widget_def url_player_def registerOnEndCallback_def)
  have tr: "cyclic_order_trace [''A'', ''B'', ''C''] 4 =
       [TriggerAction ''widget-audio-player-audio-started-A'', AudioPlayCall 0,
        TriggerAction ''widget-audio-player-audio-ended-A'',
        TriggerAction ''widget-audio-player-audio-started-B'', AudioPlayCall 1,
        TriggerAction ''widget-audio-player-audio-ended-B'',
        TriggerAction ''widget-audio-player-audio-started-C'', AudioPlayCall 2,
        TriggerAction ''widget-audio-player-audio-ended-C'',
        TriggerAction ''widget-audio-player-audio-started-A'', AudioPlayCall 0,
        TriggerAction ''widget-audio-player-audio-ended-A'',
        TriggerAction ''widget-audio-player-audio-started-B'', AudioPlayCall 1]"
    by code_simp
  from undisturbed_playlist_cycles [OF ne, of returning_env]
  have ret: "is_Returned (playAsPlaylist abc_widget)"
    and run: "let n = length (players abc_widget); r = length (cursors abc_widget);
                wk = natural_ends returning_env r 4 (state_of (playAsPlaylist abc_widget))
            in cursors wk ! r = 4 mod n
             \<and> trace wk = trace abc_widget @ AnalyticsDebug ''playAsPlaylist'' #
                  cyclic_order_trace (map player_id (players abc_widget)) 4"
    by (simp_all only: Let_def)
  from run have "cursors (natural_ends returning_env 0 4 (state_of (playAsPlaylist abc_widget))) ! 0 = 1"
    and "trace (natural_ends returning_env 0 4 (state_of (playAsPlaylist abc_widget))) =
         AnalyticsDebug ''playAsPlaylist'' # cyclic_order_trace [''A'', ''B'', ''C''] 4"
    unfolding Let_def len by simp_all
  then show ?thesis
    using ne ret unfolding tr by simp
qed

text \<open>
  C1. A natural end of the unit at the cursor does not always move the cursor. The widget
  is asked, in one turn, to play source A, to stop it and to start the playlist;
  \<^verbatim>\<open>playAsPlaylist\<close> returns normally with the cursor at unit A, its handler registered
  there and \<^verbatim>\<open>play()\<close> called. The promise of the earlier attempt is then rejected, and
  its handler clears the playing flag that the playlist's \<^verbatim>\<open>play()\<close> had set. The
  playlist's attempt is fulfilled and unit A plays, but when it reaches its end the
  listener returns at its guard: the cursor stays at 0, no notification is issued and no
  unit is started.
\<close>

theorem playlist_stalls_after_stale_rejection:
  "players (widget_stop ''A'' (widget_play ''A'' False abc_widget)) \<noteq> []
   \<and> sources (widget_stop ''A'' (widget_play ''A'' False abc_widget)) \<noteq> []
   \<and> is_Returned (playAsPlaylist (widget_stop ''A'' (widget_play ''A'' False abc_widget)))
   \<and> length (players stalled_widget) = 3
   \<and> cursors stalled_widget = [0]
   \<and> tasks stalled_widget = [(0, Resolved), (0, Resolved)]
   \<and> onEndCallback (players stalled_widget ! 0) = Some (Advance 0 0)
   \<and> \<not> paused (audio (players stalled_widget ! 0))
   \<and> \<not> playing (players stalled_widget ! 0)
   \<and> trace stalled_widget =
        [AnalyticsDebug ''play'', AudioPlayCall 0, AnalyticsDebug ''stop'',
         AnalyticsDebug ''playAsPlaylist'',
         TriggerAction ''widget-audio-player-audio-started-A'', AudioPlayCall 0,
         ConsoleError ''Audio playback failed:'' (JsError ''AbortError'')]
   \<and> ended_listener returning_env 0 stalled_widget = stalled_widget
   \<and> cursors (ended_listener returning_env 0 stalled_widget) = [0]
   \<and> trace (ended_listener returning_env 0 stalled_widget) = trace stalled_widget"
proof -
  have pre: "players (widget_stop ''A'' (widget_play ''A'' False abc_widget)) \<noteq> []"
    "sources (widget_stop ''A'' (widget_play ''A'' False abc_widget)) \<noteq> []"
    "is_Returned (playAsPlaylist (widget_stop ''A'' (widget_play ''A'' False abc_widget)))"
    by code_simp+
  have st: "length (players stalled_widget) = 3" "cursors stalled_widget = [0]"
    "tasks stalled_widget = [(0, Resolved), (0, Resolved)]"
    "onEndCallback (players stalled_widget ! 0) = Some (Advance 0 0)"
    "\<not> paused (audio (players stalled_widget ! 0))"
    "\<not> playing (players stalled_widget ! 0)"
    by code_simp+
  have tr: "trace stalled_widget =
        [AnalyticsDebug ''play'', AudioPlayCall 0, AnalyticsDebug ''stop'',
         AnalyticsDebug ''playAsPlaylist'',
         TriggerAction ''widget-audio-player-audio-started-A'', AudioPlayCall 0,
         ConsoleError ''Audio playback failed:'' (JsError ''AbortError'')]"
    by code_simp
  have stay: "ended_listener returning_env 0 stalled_widget = stalled_widget"
    using st(6) by (rule ended_ignored)
  show ?thesis
    using pre st tr stay by simp
qed

section \<open>Starting again, and starting without players\<close>

text \<open>
  C8. \<^verbatim>\<open>registerOnEndCallback\<close> keeps one callback, the last one registered. So when
  \<^verbatim>\<open>playAsPlaylist\<close> is called again (with players and sources present, in any state,
  also in the middle of a playlist), the first unit carries the handler of the new
  activation, whatever it carried before. And one \<^verbatim>\<open>ended\<close> event runs at most one
  advancement handler: if the unit is playing and carries the handler of activation \<open>r\<close>,
  the cursor of \<open>r\<close> alone moves, by one position (back to \<open>0\<close> at the end), and one
  \<^verbatim>\<open>ended\<close> notification, one \<^verbatim>\<open>started\<close> notification and one start of playback are
  issued; if the unit is not playing or carries no callback, no cursor moves. Handlers
  that an earlier activation left on other units stay where they are.
\<close>

theorem restart_rearms_single_slot:
  "onEndCallback (registerOnEndCallback cb' (registerOnEndCallback cb p)) = Some cb'
   \<and> (players w \<noteq> [] \<and> sources w \<noteq> [] \<longrightarrow>
        is_Returned (playAsPlaylist w)
      \<and> onEndCallback (players (state_of (playAsPlaylist w)) ! 0)
          = Some (Advance (length (cursors w)) 0))
   \<and> (i < length (players w) \<and> playing (players w ! i)
        \<and> onEndCallback (players w ! i) = Some (Advance r j) \<and> r < length (cursors w) \<longrightarrow>
        (let c' = (if Suc (cursors w ! r) \<ge> length (players w) then 0 else Suc (cursors w ! r))
         in cursors (ended_listener env i w) = (cursors w)[r := c']
          \<and> trace (ended_listener env i w) = trace w @
               [TriggerAction (ended_action (player_id (players w ! j))),
                TriggerAction (started_action (player_id (players w ! c'))),
                AudioPlayCall c']))
   \<and> (i < length (players w)
        \<and> (\<not> playing (players w ! i) \<or> onEndCallback (players w ! i) = None) \<longrightarrow>
        cursors (ended_listener env i w) = cursors w \<and> trace (ended_listener env i w) = trace w)"
proof -
  have a: "onEndCallback (registerOnEndCallback cb' (registerOnEndCallback cb p)) = Some cb'"
    by (simp add: registerOnEndCallback_def)
  have b: "is_Returned (playAsPlaylist w)
      \<and> onEndCallback (players (state_of (playAsPlaylist w)) ! 0)
          = Some (Advance (length (cursors w)) 0)"
    if "players w \<noteq> []" "sources w \<noteq> []"
  proof -
    from playAsPlaylist_starts [OF that] obtain w0 where
      "playAsPlaylist w = Returned w0" "selected (length (cursors w)) 0 w0"
      by blast
    then show ?thesis by (simp add: selected_def)
  qed
  show ?thesis
    using a b ended_single_advance(1,2) [of i w r j env] ended_without_handler [of i w env]
    by (simp add: Let_def)
qed

theorem restart_rearms_single_slot_witness:
  "players mid_playlist_widget \<noteq> [] \<and> sources mid_playlist_widget \<noteq> []
   \<and> cursors mid_playlist_widget = [1]
   \<and> onEndCallback (players mid_playlist_widget ! 0) = Some (Advance 0 0)
   \<and> is_Returned (playAsPlaylist mid_playlist_widget)
   \<and> onEndCallback (players restarted_widget ! 0) = Some (Advance 1 0)
   \<and> onEndCallback (players restarted_widget ! 1) = Some (Advance 0 1)
   \<and> playing (players restarted_widget ! 0) \<and> playing (players restarted_widget ! 1)
   \<and> cursors restarted_widget = [1, 0]
   \<and> cursors (ended_listener returning_env 0 restarted_widget) = [1, 1]
   \<and> cursors (ended_listener returning_env 1 restarted_widget) = [2, 0]
   \<and> trace (ended_listener returning_env 1 restarted_widget) = trace restarted_widget @
        [TriggerAction ''widget-audio-player-audio-ended-B'',
         TriggerAction ''widget-audio-player-audio-started-C'', AudioPlayCall 2]
   \<and> \<not> playing (players restarted_widget ! 2)
   \<and> cursors (ended_listener returning_env 2 restarted_widget) = [1, 0]
   \<and> trace (ended_listener returning_env 2 restarted_widget) = trace restarted_widget"
proof -
  have mid: "players mid_playlist_widget \<noteq> []" "sources mid_playlist_widget \<noteq> []"
    "onEndCallback (players mid_playlist_widget ! 0) = Some (Advance 0 0)"
    "cursors mid_playlist_widget = [1]"
    by code_simp+
  have rest: "length (players restarted_widget) = 3" "cursors restarted_widget = [1, 0]"
    "playing (players restarted_widget ! 0)" "playing (players restarted_widget ! Suc 0)"
    "onEndCallback (players restarted_widget ! 0) = Some (Advance 1 0)"
    "onEndCallback (players restarted_widget ! Suc 0) = Some (Advance 0 (Suc 0))"
    by code_simp+
  have ids: "ended_action (player_id (players restarted_widget ! Suc 0)) = ''widget-audio-player-audio-ended-B''"
    "started_action (player_id (players restarted_widget ! Suc (Suc 0))) = ''widget-audio-player-audio-started-C''"
    by code_simp+
  from restart_rearms_single_slot [where w = mid_playlist_widget]
  have start: "is_Returned (playAsPlaylist mid_playlist_widget)"
    "onEndCallback (players restarted_widget ! 0) = Some (Advance 1 0)"
    by (simp_all add: mid restarted_widget_def)
  from restart_rearms_single_slot
    [where w = restarted_widget and i = 0 and r = 1 and j = 0 and env = returning_env]
  have a: "cursors (ended_listener returning_env 0 restarted_widget) = [1, 1]"
    by (simp add: rest Let_def)
  from restart_rearms_single_slot
    [where w = restarted_widget and i = "Suc 0" and r = 0 and j = "Suc 0" and env = returning_env]
  have b: "cursors (ended_listener returning_env (Suc 0) restarted_widget) = [2, 0]"
    "trace (ended_listener returning_env (Suc 0) restarted_widget) = trace restarted_widget @
        [TriggerAction ''widget-audio-player-audio-ended-B'',
         TriggerAction ''widget-audio-player-audio-started-C'', AudioPlayCall 2]"
    by (simp_all add: rest Let_def ids numeral_2_eq_2)
  have idle: "\<not> playing (players restarted_widget ! 2)"
    by code_simp
  from restart_rearms_single_slot
    [where w = restarted_widget and i = 2 and env = returning_env]
  have c: "cursors (ended_listener returning_env 2 restarted_widget) = [1, 0]"
    "trace (ended_listener returning_env 2 restarted_widget) = trace restarted_widget"
    using idle by (simp_all add: rest)
  show ?thesis
    using mid rest start a b idle c by simp
qed

text \<open>
  C5. The guard of \<^verbatim>\<open>playAsPlaylist\<close> tests \<^verbatim>\<open>this.shared.sources\<close>, while
  \<^verbatim>\<open>playNext\<close> indexes \<^verbatim>\<open>this.players\<close>. With one configured source for which no
  player could be created, the player list is empty and the guard passes: the call reads
  \<^verbatim>\<open>this.players[0]\<close>, which is outside the list, and throws a TypeError, after having
  created the cursor.
\<close>

theorem playlist_start_without_players:
  "players unresolved_widget = [] \<and> sources unresolved_widget \<noteq> []
   \<and> playAsPlaylist unresolved_widget =
       Thrown (JsError ''TypeError'')
         (unresolved_widget\<lparr>cursors := [0], trace := [AnalyticsDebug ''playAsPlaylist'']\<rparr>)"
  by (simp add: unresolved_widget_def playAsPlaylist_def playNext_def emit_def Let_def)

section \<open>Retrying and giving up\<close>




text \<open>
  C3. \<^verbatim>\<open>play()\<close> on a unit whose first two attempts are rejected with
  \<^verbatim>\<open>NotAllowedError\<close> and whose third attempt is fulfilled, with nothing else happening
  in between: the task is resolved after the third settlement and not before, two 250 ms
  timers were started and three attempts made, and the playing flag is true after every
  step.
\<close>

theorem retry_twice_then_success:
  assumes "i < length (players w)"
  shows "let k = length (tasks w);
             blocked = Rejected (JsError ''NotAllowedError'');
             w1 = AudioPlayer_play i lp w;
             w2 = settle k blocked w1;
             w3 = timer_fired k w2;
             w4 = settle k blocked w3;
             w5 = timer_fired k w4;
             w6 = settle k Fulfilled w5
         in tasks w6 ! k = (i, Resolved)
          \<and> map (\<lambda>s. snd (tasks s ! k)) [w1, w2, w3, w4, w5]
              = [AwaitPlay, AwaitTimer, AwaitPlay, AwaitTimer, AwaitPlay]
          \<and> list_all (\<lambda>s. playing (players s ! i)) [w1, w2, w3, w4, w5, w6]
          \<and> trace w6 = trace w @
              [AudioPlayCall i,
               ConsoleWarn ''Playback blocked, retrying...'', SetTimeout k 250, AudioPlayCall i,
               ConsoleWarn ''Playback blocked, retrying...'', SetTimeout k 250, AudioPlayCall i]"
proof -
  define k where "k = length (tasks w)"
  define blocked where "blocked = Rejected (JsError ''NotAllowedError'')"
  define w1 where "w1 = AudioPlayer_play i lp w"
  define w2 where "w2 = settle k blocked w1"
  define w3 where "w3 = timer_fired k w2"
  define w4 where "w4 = settle k blocked w3"
  define w5 where "w5 = timer_fired k w4"
  define w6 where "w6 = settle k Fulfilled w5"
  note p1 = play_task [OF assms, of lp, folded w1_def]
  have k1: "k < length (tasks w1)" and t1: "tasks w1 ! k = (i, AwaitPlay)"
    and l1: "i < length (players w1)"
    using assms by (simp_all add: p1 k_def)
  note p2 = settle_blocked [OF k1 t1, folded blocked_def w2_def]
  have k2: "k < length (tasks w2)" and t2: "tasks w2 ! k = (i, AwaitTimer)"
    and a2: "playing (players w2 ! i)"
    using k1 p1(3) by (simp_all add: p2)
  note p3 = timer_retry [OF k2 t2 a2, folded w3_def]
  have k3: "k < length (tasks w3)" and t3: "tasks w3 ! k = (i, AwaitPlay)"
    and a3: "playing (players w3 ! i)"
    using k2 a2 by (simp_all add: p3)
  note p4 = settle_blocked [OF k3 t3, folded blocked_def w4_def]
  have k4: "k < length (tasks w4)" and t4: "tasks w4 ! k = (i, AwaitTimer)"
    and a4: "playing (players w4 ! i)"
    using k3 a3 by (simp_all add: p4)
  note p5 = timer_retry [OF k4 t4 a4, folded w5_def]
  have k5: "k < length (tasks w5)" and t5: "tasks w5 ! k = (i, AwaitPlay)"
    and a5: "playing (players w5 ! i)" and l5: "i < length (players w5)"
    using k4 a4 l1 by (simp_all add: p5 p4 p3 p2)
  note p6 = settle_fulfilled [OF k5 t5 l5, folded w6_def]
  have t6: "tasks w6 ! k = (i, Resolved)" and a6: "playing (players w6 ! i)"
    using k5 a5 by (simp_all add: p6)
  have tr: "trace w6 = trace w @
      [AudioPlayCall i,
       ConsoleWarn ''Playback blocked, retrying...'', SetTimeout k 250, AudioPlayCall i,
       ConsoleWarn ''Playback blocked, retrying...'', SetTimeout k 250, AudioPlayCall i]"
    by (simp add: p6 p5 p4 p3 p2 p1)
  show ?thesis
    unfolding Let_def k_def [symmetric] blocked_def [symmetric] w1_def [symmetric]
      w2_def [symmetric] w3_def [symmetric] w4_def [symmetric] w5_def [symmetric]
      w6_def [symmetric]
    using t1 t2 t3 t4 t5 t6 p1(3) a2 a3 a4 a5 a6 tr by simp
qed

theorem retry_twice_then_success_witness:
  "0 < length (players solo_widget)
   \<and> (let blocked = Rejected (JsError ''NotAllowedError'');
          w1 = AudioPlayer_play 0 False solo_widget;
          w2 = settle 0 blocked w1;
          w3 = timer_fired 0 w2;
          w4 = settle 0 blocked w3;
          w5 = timer_fired 0 w4;
          w6 = settle 0 Fulfilled w5
      in tasks w6 ! 0 = (0, Resolved)
       \<and> playing (players w1 ! 0) \<and> playing (players w2 ! 0) \<and> playing (players w3 ! 0)
       \<and> playing (players w4 ! 0) \<and> playing (players w5 ! 0) \<and> playing (players w6 ! 0)
       \<and> trace w6 =
           [AudioPlayCall 0,
            ConsoleWarn ''Playback blocked, retrying...'', SetTimeout 0 250, AudioPlayCall 0,
            ConsoleWarn ''Playback blocked, retrying...'', SetTimeout 0 250, AudioPlayCall 0])"
proof -
  have h: "0 < length (players solo_widget)"
    by (simp add: solo_widget_def)
  have base: "length (tasks solo_widget) = 0" "trace solo_widget = []"
    by (simp_all add: solo_widget_def)
  from retry_twice_then_success [OF h, of False] show ?thesis
    using h unfolding Let_def base by simp
qed

text \<open>
  C6. When an attempt of \<^verbatim>\<open>play()\<close> is rejected with an error whose name is not
  \<^verbatim>\<open>NotAllowedError\<close>, the playing flag is cleared, the failure is logged with
  \<^verbatim>\<open>console.error\<close>, and the task is resolved: no further attempt and no timer is
  started, and later settlements or timers of that task do nothing.
\<close>

theorem other_failure_abandons:
  assumes "k < length (tasks w)" and "tasks w ! k = (i, AwaitPlay)"
    and "i < length (players w)" and "error_name err \<noteq> ''NotAllowedError''"
  shows "let w' = settle k (Rejected err) w in
           \<not> playing (players w' ! i)
         \<and> trace w' = trace w @ [ConsoleError ''Audio playback failed:'' err]
         \<and> tasks w' = (tasks w)[k := (i, Resolved)]
         \<and> cursors w' = cursors w
         \<and> timer_fired k w' = w' \<and> (\<forall>s. settle k s w' = w')"
  using assms
  by (simp add: settle_def timer_fired_def set_phase_def on_player_def emit_def Let_def)

theorem other_failure_abandons_witness:
  "0 < length (tasks (AudioPlayer_play 0 False solo_widget))
   \<and> tasks (AudioPlayer_play 0 False solo_widget) ! 0 = (0, AwaitPlay)
   \<and> 0 < length (players (AudioPlayer_play 0 False solo_widget))
   \<and> error_name (JsError ''NotSupportedError'') \<noteq> ''NotAllowedError''
   \<and> \<not> playing (players (settle 0 (Rejected (JsError ''NotSupportedError''))
          (AudioPlayer_play 0 False solo_widget)) ! 0)
   \<and> trace (settle 0 (Rejected (JsError ''NotSupportedError''))
          (AudioPlayer_play 0 False solo_widget)) =
        [AudioPlayCall 0, ConsoleError ''Audio playback failed:'' (JsError ''NotSupportedError'')]
   \<and> tasks (settle 0 (Rejected (JsError ''NotSupportedError''))
          (AudioPlayer_play 0 False solo_widget)) = [(0, Resolved)]"
proof -
  have i: "0 < length (players solo_widget)"
    by (simp add: solo_widget_def)
  have base: "tasks solo_widget = []" "trace solo_widget = []"
    by (simp_all add: solo_widget_def)
  have h: "0 < length (tasks (AudioPlayer_play 0 False solo_widget))"
    "tasks (AudioPlayer_play 0 False solo_widget) ! 0 = (0, AwaitPlay)"
    "0 < length (players (AudioPlayer_play 0 False solo_widget))"
    "error_name (JsError ''NotSupportedError'') \<noteq> ''NotAllowedError''"
    using i by (simp_all add: play_task [OF i] base)
  from other_failure_abandons [OF h] show ?thesis
    using h unfolding Let_def by (simp add: play_task [OF i] base)
qed

section \<open>The end callback\<close>

text \<open>
  The listener, step by step. A unit carries a registered end callback. If an \<^verbatim>\<open>ended\<close> event
  arrives while the playing flag is true, the flag is cleared first and the callback is
  then run once, on the state with the flag cleared; if the callback throws, the listener
  logs the error with \<^verbatim>\<open>console.error\<close> and returns normally, in the state the callback
  left. If the event arrives while the flag is false, the listener returns at its guard and
  the callback is not run. \<^verbatim>\<open>stop()\<close> and \<^verbatim>\<open>pause()\<close> run no callback: they touch neither
  the trace nor any cursor, the callback stays registered, and an \<^verbatim>\<open>ended\<close> event after
  \<^verbatim>\<open>stop()\<close> is ignored.
\<close>

lemma ended_listener_runs_callback:
  assumes "i < length (players w)" and "onEndCallback (players w ! i) = Some cb"
  shows "(playing (players w ! i) \<longrightarrow>
           (let w1 = on_player i (\<lambda>p. p\<lparr>playing := False\<rparr>) w in
              \<not> playing (players w1 ! i)
            \<and> ended_listener env i w =
                (case run_callback env cb w1 of
                   Returned w2 \<Rightarrow> w2
                 | Thrown err w2 \<Rightarrow> emit (ConsoleError ''Audio onEnd callback failed:'' err) w2)))
       \<and> (\<not> playing (players w ! i) \<longrightarrow> ended_listener env i w = w)
       \<and> ended_listener env i (on_player i stop w) = on_player i stop w
       \<and> trace (on_player i stop w) = trace w \<and> trace (on_player i pause w) = trace w
       \<and> cursors (on_player i stop w) = cursors w \<and> cursors (on_player i pause w) = cursors w
       \<and> onEndCallback (players (on_player i stop w) ! i) = Some cb
       \<and> onEndCallback (players (on_player i pause w) ! i) = Some cb"
  using assms
  by (simp add: ended_listener_def on_player_def Let_def stop_def pause_def)

lemma ended_listener_runs_callback_example:
  "0 < length (players armed_widget)
   \<and> onEndCallback (players armed_widget ! 0) = Some (Client 0)
   \<and> playing (players armed_widget ! 0)
   \<and> ended_listener throwing_env 0 armed_widget =
       emit (ConsoleError ''Audio onEnd callback failed:'' (JsError ''Error''))
         (triggerAction ''client-callback''
            (on_player 0 (\<lambda>p. p\<lparr>playing := False\<rparr>) armed_widget))
   \<and> ended_listener returning_env 0 armed_widget =
       triggerAction ''client-callback'' (on_player 0 (\<lambda>p. p\<lparr>playing := False\<rparr>) armed_widget)
   \<and> \<not> playing (players (on_player 0 stop armed_widget) ! 0)
   \<and> ended_listener returning_env 0 (on_player 0 stop armed_widget) = on_player 0 stop armed_widget"
proof -
  have h: "0 < length (players armed_widget)"
    "onEndCallback (players armed_widget ! 0) = Some (Client 0)"
    "playing (players armed_widget ! 0)"
    by code_simp+
  have s: "0 < length (players (on_player 0 stop armed_widget))"
    "onEndCallback (players (on_player 0 stop armed_widget) ! 0) = Some (Client 0)"
    "\<not> playing (players (on_player 0 stop armed_widget) ! 0)"
    by code_simp+
  from ended_listener_runs_callback [OF h(1,2), of throwing_env]
    ended_listener_runs_callback [OF h(1,2), of returning_env]
    ended_listener_runs_callback [OF s(1,2), of returning_env]
  show ?thesis
    using h s(3) by (simp add: Let_def throwing_env_def returning_env_def)
qed

text \<open>
  C4. The callback is not run at every natural end. \<^verbatim>\<open>registerOnEndCallback\<close> documents
  that the callback fires when the audio finishes naturally, but the listener only passes
  the event on while the playing flag is true, and a rejection that arrives late can clear
  the flag of a later \<^verbatim>\<open>play()\<close>. After \<^verbatim>\<open>play()\<close>, \<^verbatim>\<open>stop()\<close>, \<^verbatim>\<open>play()\<close> in one
  turn, the rejection of the first attempt clears the flag that the second call had set;
  the second attempt starts the audio (the element is not paused), and when it reaches
  its end the listener leaves the state as it is, although running the callback would
  have left its mark in the trace.
\<close>

theorem natural_end_without_callback:
  "onEndCallback (players interrupted_widget ! 0) = Some (Client 0)
   \<and> \<not> paused (audio (players interrupted_widget ! 0))
   \<and> \<not> playing (players interrupted_widget ! 0)
   \<and> trace interrupted_widget =
        [AudioPlayCall 0, AudioPlayCall 0, ConsoleError ''Audio playback failed:'' (JsError ''AbortError'')]
   \<and> trace (state_of (run_callback returning_env (Client 0) interrupted_widget)) =
        trace interrupted_widget @ [TriggerAction ''client-callback'']
   \<and> ended_listener returning_env 0 interrupted_widget = interrupted_widget"
  by (simp add: interrupted_widget_def armed_widget_def solo_widget_def url_player_def
      new_AudioPlayer_def Audio_def clampVolume_def registerOnEndCallback_def play_begin_def
      stop_def el_pause_def on_player_def AudioPlayer_play_def settle_def set_phase_def
      emit_def triggerAction_def returning_env_def ended_listener_def)

section \<open>After destroy\<close>

text \<open>
  C7. \<^verbatim>\<open>destroy()\<close> has no flag of its own and no other method tests for it. On a
  destroyed unit \<^verbatim>\<open>setVolume(0.5)\<close> stores 0.5 where \<^verbatim>\<open>destroy()\<close> had stored 0,
  \<^verbatim>\<open>registerOnEndCallback\<close> fills the slot again, and \<^verbatim>\<open>play()\<close> sets the playing
  flag and calls \<^verbatim>\<open>audio.play()\<close>; when that attempt is rejected with
  \<^verbatim>\<open>NotAllowedError\<close> the unit retries every 250 ms.
\<close>

theorem operations_after_destroy:
  "(let p = destroy (url_player ''A'' ''a.mp3'') in
      volume (audio p) = 0 \<and> volume (audio (setVolume 0.5 p)) = 0.5
    \<and> onEndCallback p = None
    \<and> onEndCallback (registerOnEndCallback (Client 0) p) = Some (Client 0)
    \<and> \<not> playing p \<and> playing (play_begin False p))
   \<and> (let w = on_player 0 destroy solo_widget;
           w1 = AudioPlayer_play 0 False w;
           w2 = settle 0 (Rejected (JsError ''NotAllowedError'')) w1;
           w3 = timer_fired 0 w2
       in \<not> playing (players w ! 0) \<and> playing (players w1 ! 0) \<and> playing (players w3 ! 0)
        \<and> trace w3 = [AudioPlayCall 0, ConsoleWarn ''Playback blocked, retrying...'',
             SetTimeout 0 250, AudioPlayCall 0])"
  by (simp add: Let_def url_player_def new_AudioPlayer_def Audio_def destroy_def el_pause_def
      el_load_def setVolume_def clampVolume_def registerOnEndCallback_def play_begin_def
      solo_widget_def on_player_def AudioPlayer_play_def settle_def timer_fired_def
      set_phase_def emit_def)

section \<open>Unknown identifiers\<close>

text \<open>
  C10. For an identifier that no managed player carries, \<^verbatim>\<open>play(id, loop)\<close> and
  \<^verbatim>\<open>stop(id)\<close> of the widget return normally, having logged the debug line and the
  error \<^verbatim>\<open>No audio player found with ID\<close>; nothing else changes: no player is touched
  and no playback task is created.
\<close>

theorem unknown_id_is_reported:
  assumes "ident \<notin> player_id ` set (players w)"
  shows "widget_play ident lp w =
           w\<lparr>trace := trace w @ [AnalyticsDebug ''play'',
                AnalyticsError ''No audio player found with ID'' ident]\<rparr>
       \<and> widget_stop ident w =
           w\<lparr>trace := trace w @ [AnalyticsDebug ''stop'',
                AnalyticsError ''No audio player found with ID'' ident]\<rparr>
       \<and> players (widget_play ident lp w) = players w
       \<and> players (widget_stop ident w) = players w
       \<and> tasks (widget_play ident lp w) = tasks w
       \<and> tasks (widget_stop ident w) = tasks w"
proof -
  from assms have "find_player ident (players w) = None"
    by (simp add: find_player_None)
  then show ?thesis
    by (simp add: widget_play_def widget_stop_def emit_def Let_def)
qed

theorem unknown_id_is_reported_witness:
  "''D'' \<notin> player_id ` set (players abc_widget)
   \<and> widget_play ''D'' True abc_widget =
       abc_widget\<lparr>trace := [AnalyticsDebug ''play'',
          AnalyticsError ''No audio player found with ID'' ''D'']\<rparr>
   \<and> widget_stop ''D'' abc_widget =
       abc_widget\<lparr>trace := [AnalyticsDebug ''stop'',
          AnalyticsError ''No audio player found with ID'' ''D'']\<rparr>
   \<and> players (widget_play ''D'' True abc_widget) = players abc_widget
   \<and> players (widget_stop ''D'' abc_widget) = players abc_widget"
proof -
  have h: "''D'' \<notin> player_id ` set (players abc_widget)"
    by (simp add: abc_widget_def url_player_def registerOnEndCallback_def)
  have base: "trace abc_widget = []"
    by (simp add: abc_widget_def)
  from unknown_id_is_reported [OF h, of True] show ?thesis
    using h unfolding base by simp
qed

section \<open>Volume\<close>

text \<open>
  C9. For every real \<open>v\<close>, \<^verbatim>\<open>setVolume(v)\<close> stores \<open>min 1 (max 0 v)\<close> as the element's
  volume (so \<open>-0.5\<close> stores \<open>0\<close>, \<open>1.7\<close> stores \<open>1\<close>, \<open>0.42\<close> stores \<open>0.42\<close>), and the
  constructor applies the same clamp to the initial volume; the stored volume is in
  \<open>[0, 1]\<close>.
\<close>

theorem setVolume_clamps:
  "volume (audio (setVolume v p)) = min 1 (max 0 v)
   \<and> volume (audio (new_AudioPlayer u v)) = min 1 (max 0 v)
   \<and> 0 \<le> volume (audio (setVolume v p)) \<and> volume (audio (setVolume v p)) \<le> 1
   \<and> volume (audio (setVolume (- 0.5) p)) = 0
   \<and> volume (audio (setVolume 1.7 p)) = 1
   \<and> volume (audio (setVolume 0.42 p)) = 0.42"
  by (simp add: setVolume_def new_AudioPlayer_def Audio_def clampVolume_def)

end
